theory Spec2Isabelle
  imports Main
begin

section \<open>Values shared by the plan and raw services\<close>

text \<open>
  A Go slice is either nil or an array segment; the two are told apart by \<open>== nil\<close> while
  \<open>len\<close> and \<open>range\<close> treat nil as empty. A slice is therefore a list option, with
  \<open>None\<close> for nil, and \<open>elems\<close> gives what \<open>range\<close> walks over.
\<close>

type_synonym 'a slice = "'a list option"

definition elems :: "'a slice \<Rightarrow> 'a list" where
  "elems s = (case s of None \<Rightarrow> [] | Some xs \<Rightarrow> xs)"

text \<open>
  A Go function either returns or panics (a nil pointer dereference is a run-time panic).
\<close>

datatype 'a outcome = Panic | Return 'a

text \<open>
  Error values. \<open>simpleError\<close> is the package's own error struct (built as
  \<open>&simpleError{msg}\<close>), \<open>fmtError\<close> is what \<open>fmt.Errorf\<close> builds, and
  \<open>transportError\<close> stands for any other error value handed back by the client.
  \<open>Error\<close> is the method \<open>Error()\<close>: the message carried (for \<open>simpleError\<close>,
  whose method is declared with the struct in another file, the string it was built with).
\<close>

datatype error = simpleError string | fmtError string | transportError string

fun Error :: "error \<Rightarrow> string" where
  "Error (simpleError s) = s"
| "Error (fmtError s) = s"
| "Error (transportError s) = s"

subsection \<open>Decimal rendering: \<open>strconv.Itoa\<close> and the verb \<open>%d\<close>\<close>

definition digit :: "nat \<Rightarrow> char" where
  "digit d = ''0123456789'' ! d"

function decimal :: "nat \<Rightarrow> string" where
  "decimal n = (if n < 10 then [digit n] else decimal (n div 10) @ [digit (n mod 10)])"
  by pat_completeness auto
termination
  by (relation "measure (\<lambda>n. n)") auto

declare decimal.simps [simp del]

text \<open>
  Go's \<open>int\<close> is modelled as an unbounded integer: no operation of these files does
  arithmetic on one; they are decoded, compared and printed only.
\<close>

definition Itoa :: "int \<Rightarrow> string" where
  "Itoa i = (if i < 0 then CHR ''-'' # decimal (nat (- i)) else decimal (nat i))"

section \<open>The data model of \<open>plans.go\<close>\<close>

text \<open>
  \<open>Link\<close> and \<open>ResourceMetadata\<close> are structs declared in another file of the package;
  nothing here reads their fields.
\<close>

typedecl Link
typedecl ResourceMetadata

text \<open>
  Modelled from the spec: \<open>CollectionMetadata\<close>, declared in another file of the package.
  The spec gives the envelope's metadata as \<open>size\<close>, \<open>max-results\<close> and \<open>start-index\<close>;
  \<open>plans.go\<close> reads \<open>Size\<close> through the embedded pointer.
\<close>

record CollectionMetadata =
  Size :: int
  MaxResults :: int
  StartIndex :: int

record PlanCreateBranchOptions =
  VCSBranch :: string

record PlanKey =
  Key :: string

record PlanVariable =
  Key :: string
  Value :: string
  VariableType :: string
  IsPassword :: bool

type_synonym VariableList = "PlanVariable slice"

record VariableContext =
  Size :: int
  MaxResults :: int
  StartIndex :: int
  Variable :: VariableList

record Plan =
  ShortName :: string
  ShortKey :: string
  Type :: string
  Enabled :: bool
  Link :: "Link option"
  Key :: string
  Name :: string
  PlanKey :: "PlanKey option"
  VariableContext :: "VariableContext option"

record Plans =
  CollectionMetadata :: "CollectionMetadata option"
  PlanList :: "Plan option slice"

record PlanResponse =
  ResourceMetadata :: "ResourceMetadata option"
  Plans :: "Plans option"

text \<open>The zero values \<open>Plan{}\<close> and \<open>PlanResponse{}\<close> that the code hands to the decoder.\<close>

definition Plan_zero :: Plan where
  "Plan_zero = \<lparr>ShortName = [], ShortKey = [], Type = [], Enabled = False, Link = None,
     Plan.Key = [], Name = [], PlanKey = None, VariableContext = None\<rparr>"

definition PlanResponse_zero :: PlanResponse where
  "PlanResponse_zero = \<lparr>ResourceMetadata = None, Plans = None\<rparr>"

section \<open>Helpers on variable lists\<close>

text \<open>The loop of \<open>GetVarValueE\<close>: the first entry whose key is the name decides.\<close>

fun GetVarValueE_range :: "PlanVariable list \<Rightarrow> string \<Rightarrow> string \<times> error option" where
  "GetVarValueE_range [] name = ([], Some (fmtError ''not found''))"
| "GetVarValueE_range (v # vs) name =
     (if PlanVariable.Key v = name then (Value v, None) else GetVarValueE_range vs name)"

definition GetVarValueE :: "VariableList \<Rightarrow> string \<Rightarrow> string \<times> error option" where
  "GetVarValueE vl name = GetVarValueE_range (elems vl) name"

text \<open>The loop of \<open>GetVarValue\<close>, whose two \<open>return\<close> statements both give \<open>""\<close>.\<close>

fun GetVarValue_range :: "PlanVariable list \<Rightarrow> string \<Rightarrow> string" where
  "GetVarValue_range [] name = []"
| "GetVarValue_range (v # vs) name =
     (if PlanVariable.Key v = name then [] else GetVarValue_range vs name)"

definition GetVarValue :: "VariableList \<Rightarrow> string \<Rightarrow> string" where
  "GetVarValue vl name = GetVarValue_range (elems vl) name"

text \<open>\<open>ToMap\<close>: the map starts empty and every entry, in order, stores its value under its key.\<close>

fun ToMap_range :: "PlanVariable list \<Rightarrow> (string \<rightharpoonup> string) \<Rightarrow> (string \<rightharpoonup> string)" where
  "ToMap_range [] retMap = retMap"
| "ToMap_range (v # vs) retMap = ToMap_range vs (retMap(PlanVariable.Key v \<mapsto> Value v))"

definition ToMap :: "VariableList \<Rightarrow> (string \<rightharpoonup> string)" where
  "ToMap vl = ToMap_range (elems vl) Map.empty"

section \<open>The client and the requests it sends\<close>

text \<open>
  \<open>url.Values\<close>: the query of a request in parsed form, the (key, value) pairs in the
  order they were added. \<open>Add\<close> appends a value to those of its key; \<open>Values_all\<close> is
  the slice stored under a key.
  \<open>Query()\<close> followed by \<open>Add\<close> and \<open>RawQuery = Encode()\<close> is \<open>Values_Add\<close> on the
  request's query; the order in which \<open>Encode\<close> writes the keys is not represented.
\<close>

type_synonym Values = "(string \<times> string) list"

definition Values_Add :: "Values \<Rightarrow> string \<Rightarrow> string \<Rightarrow> Values" where
  "Values_Add q k v = q @ [(k, v)]"

definition Values_all :: "Values \<Rightarrow> string \<Rightarrow> string list" where
  "Values_all q k = map snd (filter (\<lambda>p. fst p = k) q)"

record request =
  Method :: string
  URL :: string
  Query :: Values
  Header :: Values

text \<open>
  A response: its status code and status line, and in \<open>Body\<close> what \<open>ioutil.ReadAll\<close>
  returns on its body stream (the bytes read and the error, if any).
\<close>

record response =
  StatusCode :: int
  Status :: string
  Body :: "string \<times> error option"

text \<open>
  The client (\<open>p.client\<close>) is declared in another file of the package and is a parameter
  here. \<open>BaseUrl\<close> is the configured base URL as \<open>BaseUrl.String()\<close> renders it.
  \<open>NewRequest\<close> and \<open>RawRequest\<close> build a request for a method and a path or
  fail; every call in these files passes a nil body. \<open>Do\<close> sends a request and gives
  back the pair \<open>(response, err)\<close>, either of which may be nil; the reply may depend on
  the requests sent before. With a destination, \<open>Do\<close> also decodes into it:
  \<open>Do_PlanResponse\<close> and \<open>Do_Plan\<close> take the destination as handed in and return it
  as it is left after the call.
\<close>

record client =
  BaseUrl :: string
  NewRequest :: "string \<Rightarrow> string \<Rightarrow> error + request"
  RawRequest :: "string \<Rightarrow> string \<Rightarrow> error + request"
  Do :: "request list \<Rightarrow> request \<Rightarrow> response option \<times> error option"
  Do_PlanResponse :: "request list \<Rightarrow> request \<Rightarrow> PlanResponse
                        \<Rightarrow> response option \<times> error option \<times> PlanResponse"
  Do_Plan :: "request list \<Rightarrow> request \<Rightarrow> Plan \<Rightarrow> response option \<times> error option \<times> Plan"
  RawDo :: "request list \<Rightarrow> request \<Rightarrow> response option \<times> error option"

text \<open>
  What a call leaves behind: the (method, path) pairs for which a request was built and
  the requests dispatched, both in order.
\<close>

record world =
  built :: "(string \<times> string) list"
  sent :: "request list"

definition build :: "client \<Rightarrow> string \<Rightarrow> string \<Rightarrow> world \<Rightarrow> (error + request) \<times> world" where
  "build c m u w = (NewRequest c m u, w\<lparr>built := built w @ [(m, u)]\<rparr>)"

definition build_raw :: "client \<Rightarrow> string \<Rightarrow> string \<Rightarrow> world \<Rightarrow> (error + request) \<times> world" where
  "build_raw c m u w = (RawRequest c m u, w\<lparr>built := built w @ [(m, u)]\<rparr>)"

definition dispatch :: "client \<Rightarrow> request \<Rightarrow> world \<Rightarrow> (response option \<times> error option) \<times> world" where
  "dispatch c rq w = (Do c (sent w) rq, w\<lparr>sent := sent w @ [rq]\<rparr>)"

definition dispatch_PlanResponse ::
  "client \<Rightarrow> request \<Rightarrow> PlanResponse \<Rightarrow> world
     \<Rightarrow> (response option \<times> error option \<times> PlanResponse) \<times> world" where
  "dispatch_PlanResponse c rq v w = (Do_PlanResponse c (sent w) rq v, w\<lparr>sent := sent w @ [rq]\<rparr>)"

definition dispatch_Plan ::
  "client \<Rightarrow> request \<Rightarrow> Plan \<Rightarrow> world \<Rightarrow> (response option \<times> error option \<times> Plan) \<times> world" where
  "dispatch_Plan c rq v w = (Do_Plan c (sent w) rq v, w\<lparr>sent := sent w @ [rq]\<rparr>)"

definition dispatch_raw :: "client \<Rightarrow> request \<Rightarrow> world \<Rightarrow> (response option \<times> error option) \<times> world" where
  "dispatch_raw c rq w = (RawDo c (sent w) rq, w\<lparr>sent := sent w @ [rq]\<rparr>)"

section \<open>The plan service\<close>

text \<open>
  Modelled from the spec: \<open>emptyStrings\<close>, a helper declared in another file of the
  package. The spec has \<open>CreateBranch\<close> check that both the plan key and the branch name
  are non-empty and fail otherwise, so the helper holds when one of its arguments is
  \<open>""\<close>.
\<close>

fun emptyStrings :: "string list \<Rightarrow> bool" where
  "emptyStrings [] = False"
| "emptyStrings (s # ss) = (if s = [] then True else emptyStrings ss)"

definition CreateBranch ::
  "client \<Rightarrow> string \<Rightarrow> string \<Rightarrow> PlanCreateBranchOptions option \<Rightarrow> world
     \<Rightarrow> (bool \<times> response option \<times> error option) outcome \<times> world" where
  "CreateBranch c planKey branchName options w =
     (if \<not> emptyStrings [planKey, branchName] then
        (case build c ''PUT'' (''plan/'' @ planKey @ ''/branch/'' @ branchName @ ''.json'') w of
           (Inl err, w1) \<Rightarrow> (Return (False, None, Some err), w1)
         | (Inr request, w1) \<Rightarrow>
             (let request' =
                (case options of
                   None \<Rightarrow> request
                 | Some opt \<Rightarrow>
                     if VCSBranch opt \<noteq> [] then
                       request\<lparr>Query := Values_Add (Query request) ''vcsBranch'' (VCSBranch opt)\<rparr>
                     else request)
              in case dispatch c request' w1 of
                   ((response, Some err), w2) \<Rightarrow> (Return (False, response, Some err), w2)
                 | ((None, None), w2) \<Rightarrow> (Panic, w2)
                 | ((Some r, None), w2) \<Rightarrow>
                     if \<not> (StatusCode r = 200) then
                       (Return (False, Some r,
                          Some (simpleError (''Create returned '' @ Itoa (StatusCode r)))), w2)
                     else (Return (True, Some r, None), w2)))
      else
        (Return (False, None,
           Some (simpleError ''Project key and/or branch name cannot be empty'')), w))"

definition GetNumber ::
  "client \<Rightarrow> world \<Rightarrow> (int \<times> response option \<times> error option) outcome \<times> world" where
  "GetNumber c w =
     (case build c ''GET'' ''plan.json'' w of
        (Inl err, w1) \<Rightarrow> (Return (0, None, Some err), w1)
      | (Inr request, w1) \<Rightarrow>
          (case dispatch_PlanResponse c
                  (request\<lparr>Query := Values_Add (Query request) ''max-results'' ''1''\<rparr>)
                  PlanResponse_zero w1 of
             ((response, Some err, planResp), w2) \<Rightarrow> (Return (0, response, Some err), w2)
           | ((None, None, planResp), w2) \<Rightarrow> (Panic, w2)
           | ((Some r, None, planResp), w2) \<Rightarrow>
               if StatusCode r \<noteq> 200 then
                 (Return (0, Some r,
                    Some (simpleError (''Getting the number of plans returned '' @ Status r))), w2)
               else
                 (case Plans planResp of
                    None \<Rightarrow> (Panic, w2)
                  | Some ps \<Rightarrow>
                      (case CollectionMetadata ps of
                         None \<Rightarrow> (Panic, w2)
                       | Some cm \<Rightarrow> (Return (CollectionMetadata.Size cm, Some r, None), w2)))))"

definition List ::
  "client \<Rightarrow> world \<Rightarrow> (Plan option slice \<times> response option \<times> error option) outcome \<times> world" where
  "List c w =
     (case GetNumber c w of
        (Panic, w1) \<Rightarrow> (Panic, w1)
      | (Return (numPlans, resp, Some err), w1) \<Rightarrow> (Return (None, resp, Some err), w1)
      | (Return (numPlans, resp, None), w1) \<Rightarrow>
          (case build c ''GET'' ''plan.json'' w1 of
             (Inl err, w2) \<Rightarrow> (Return (None, None, Some err), w2)
           | (Inr request, w2) \<Rightarrow>
               (case dispatch_PlanResponse c
                       (request\<lparr>Query := Values_Add (Query request) ''max-results'' (Itoa numPlans)\<rparr>)
                       PlanResponse_zero w2 of
                  ((response, Some err, planResp), w3) \<Rightarrow> (Return (None, response, Some err), w3)
                | ((None, None, planResp), w3) \<Rightarrow> (Panic, w3)
                | ((Some r, None, planResp), w3) \<Rightarrow>
                    if StatusCode r \<noteq> 200 then
                      (Return (None, Some r,
                         Some (simpleError (''Getting plan information returned '' @ Status r))), w3)
                    else
                      (case Plans planResp of
                         None \<Rightarrow> (Panic, w3)
                       | Some ps \<Rightarrow> (Return (PlanList ps, Some r, None), w3)))))"

text \<open>
  The loops of the three projections. \<open>plans\<close> holds pointers, and reading a field
  through a nil one panics. \<open>keys\<close> and \<open>names\<close> are made with the length of \<open>plans\<close>,
  so the index written is always in range.
\<close>

fun ListKeys_range :: "nat \<Rightarrow> Plan option list \<Rightarrow> string list \<Rightarrow> string list outcome" where
  "ListKeys_range i [] keys = Return keys"
| "ListKeys_range i (None # ps) keys = Panic"
| "ListKeys_range i (Some p # ps) keys = ListKeys_range (Suc i) ps (keys[i := Plan.Key p])"

definition ListKeys ::
  "client \<Rightarrow> world \<Rightarrow> (string slice \<times> response option \<times> error option) outcome \<times> world" where
  "ListKeys c w =
     (case List c w of
        (Panic, w1) \<Rightarrow> (Panic, w1)
      | (Return (plans, response, Some err), w1) \<Rightarrow> (Return (None, response, Some err), w1)
      | (Return (plans, response, None), w1) \<Rightarrow>
          (case ListKeys_range 0 (elems plans) (replicate (length (elems plans)) []) of
             Panic \<Rightarrow> (Panic, w1)
           | Return keys \<Rightarrow> (Return (Some keys, response, None), w1)))"

fun ListNames_range :: "nat \<Rightarrow> Plan option list \<Rightarrow> string list \<Rightarrow> string list outcome" where
  "ListNames_range i [] names = Return names"
| "ListNames_range i (None # ps) names = Panic"
| "ListNames_range i (Some p # ps) names = ListNames_range (Suc i) ps (names[i := ShortName p])"

definition ListNames ::
  "client \<Rightarrow> world \<Rightarrow> (string slice \<times> response option \<times> error option) outcome \<times> world" where
  "ListNames c w =
     (case List c w of
        (Panic, w1) \<Rightarrow> (Panic, w1)
      | (Return (plans, response, Some err), w1) \<Rightarrow> (Return (None, response, Some err), w1)
      | (Return (plans, response, None), w1) \<Rightarrow>
          (case ListNames_range 0 (elems plans) (replicate (length (elems plans)) []) of
             Panic \<Rightarrow> (Panic, w1)
           | Return names \<Rightarrow> (Return (Some names, response, None), w1)))"

fun NamesMap_range ::
  "Plan option list \<Rightarrow> (string \<rightharpoonup> string) \<Rightarrow> (string \<rightharpoonup> string) outcome" where
  "NamesMap_range [] planMap = Return planMap"
| "NamesMap_range (None # ps) planMap = Panic"
| "NamesMap_range (Some p # ps) planMap = NamesMap_range ps (planMap(Plan.Key p \<mapsto> ShortName p))"

definition NamesMap ::
  "client \<Rightarrow> world
     \<Rightarrow> ((string \<rightharpoonup> string) option \<times> response option \<times> error option) outcome \<times> world" where
  "NamesMap c w =
     (case List c w of
        (Panic, w1) \<Rightarrow> (Panic, w1)
      | (Return (plans, response, Some err), w1) \<Rightarrow> (Return (None, response, Some err), w1)
      | (Return (plans, response, None), w1) \<Rightarrow>
          (case NamesMap_range (elems plans) Map.empty of
             Panic \<Rightarrow> (Panic, w1)
           | Return planMap \<Rightarrow> (Return (Some planMap, response, None), w1)))"

definition Disable ::
  "client \<Rightarrow> string \<Rightarrow> world \<Rightarrow> (response option \<times> error option) outcome \<times> world" where
  "Disable c planKey w =
     (case build c ''DELETE'' (''plan/'' @ planKey @ ''/enable'') w of
        (Inl err, w1) \<Rightarrow> (Return (None, Some err), w1)
      | (Inr request, w1) \<Rightarrow>
          (case dispatch c request w1 of
             ((response, Some err), w2) \<Rightarrow> (Return (response, Some err), w2)
           | ((response, None), w2) \<Rightarrow> (Return (response, None), w2)))"

definition GetVars ::
  "client \<Rightarrow> string \<Rightarrow> world
     \<Rightarrow> (VariableList \<times> response option \<times> error option) outcome \<times> world" where
  "GetVars c planKey w =
     (case build c ''GET'' (''plan/'' @ planKey) w of
        (Inl err, w1) \<Rightarrow> (Return (None, None, Some err), w1)
      | (Inr request, w1) \<Rightarrow>
          (case dispatch_Plan c
                  (request\<lparr>Query := Values_Add (Query request) ''expand'' ''variableContext''\<rparr>)
                  Plan_zero w1 of
             ((response, Some err, planResp), w2) \<Rightarrow> (Return (None, response, Some err), w2)
           | ((response, None, planResp), w2) \<Rightarrow>
               (case VariableContext planResp of
                  None \<Rightarrow> (Panic, w2)
                | Some vc \<Rightarrow>
                    if VariableContext.MaxResults vc \<noteq> VariableContext.Size vc then
                      (Return (Variable vc, response,
                         Some (fmtError (''not all results were returned: ''
                                 @ Itoa (VariableContext.Size vc) @ '' out of ''
                                 @ Itoa (VariableContext.MaxResults vc)))), w2)
                    else (Return (Variable vc, response, None), w2))))"

section \<open>The raw service\<close>

definition TrimPrefix :: "string \<Rightarrow> string \<Rightarrow> string" where
  "TrimPrefix s prefix =
     (if take (length prefix) s = prefix then drop (length prefix) s else s)"

definition GetRaw ::
  "client \<Rightarrow> string \<Rightarrow> world \<Rightarrow> (string \<times> response option \<times> error option) outcome \<times> world" where
  "GetRaw c path w =
     (case build_raw c ''GET'' (TrimPrefix path (BaseUrl c)) w of
        (Inl err, w1) \<Rightarrow> (Return ([], None, Some err), w1)
      | (Inr request, w1) \<Rightarrow>
          (case dispatch_raw c
                  (request\<lparr>Header := Values_Add (Header request) ''Content-Type''
                                        ''application/x-www-form-urlencoded''\<rparr>) w1 of
             ((response, Some err), w2) \<Rightarrow> (Return ([], None, Some err), w2)
           | ((None, None), w2) \<Rightarrow> (Panic, w2)
           | ((Some r, None), w2) \<Rightarrow>
               if \<not> (StatusCode r = 200) then
                 (Return ([], None, Some (simpleError (''Get returned '' @ Itoa (StatusCode r)))), w2)
               else
                 (case Body r of
                    (body, Some err) \<Rightarrow>
                      (Return ([], Some r, Some (simpleError (''Read body '' @ Error err))), w2)
                  | (body, None) \<Rightarrow> (Return (body, Some r, None), w2))))"

section \<open>Stub clients and sample data\<close>

text \<open>
  In the manner of the package's tests, which run the services against a stub server: a
  client whose builder always succeeds with a request that has no query and no header,
  and whose server gives the same reply to every request.
\<close>

definition plain_request :: "string \<Rightarrow> string \<Rightarrow> request" where
  "plain_request m u = \<lparr>Method = m, URL = u, Query = [], Header = []\<rparr>"

definition stub_client ::
  "response option \<Rightarrow> error option \<Rightarrow> PlanResponse \<Rightarrow> Plan \<Rightarrow> client" where
  "stub_client r e pr pl =
     \<lparr>BaseUrl = ''http://ci.example/'',
      NewRequest = (\<lambda>m u. Inr (plain_request m u)),
      RawRequest = (\<lambda>m u. Inr (plain_request m u)),
      Do = (\<lambda>log rq. (r, e)),
      Do_PlanResponse = (\<lambda>log rq v. (r, e, pr)),
      Do_Plan = (\<lambda>log rq v. (r, e, pl)),
      RawDo = (\<lambda>log rq. (r, e))\<rparr>"

definition ok :: response where
  "ok = \<lparr>StatusCode = 200, Status = ''200 OK'', Body = ([], None)\<rparr>"

definition unauthorized :: response where
  "unauthorized = \<lparr>StatusCode = 401, Status = ''401 Unauthorized'', Body = ([], None)\<rparr>"

definition refused :: error where
  "refused = transportError ''connection refused''"

definition w0 :: world where
  "w0 = \<lparr>built = [], sent = []\<rparr>"

definition var :: "string \<Rightarrow> string \<Rightarrow> PlanVariable" where
  "var k v = \<lparr>PlanVariable.Key = k, Value = v, VariableType = ''PLAN'', IsPassword = False\<rparr>"

definition plan :: "string \<Rightarrow> string \<Rightarrow> Plan" where
  "plan k n = Plan_zero\<lparr>ShortName := n, Plan.Key := k\<rparr>"

definition plans_of :: "int \<Rightarrow> Plan option slice \<Rightarrow> PlanResponse" where
  "plans_of n ps =
     \<lparr>ResourceMetadata = None,
      Plans = Some \<lparr>CollectionMetadata =
                      Some \<lparr>CollectionMetadata.Size = n, MaxResults = n, StartIndex = 0\<rparr>,
                    PlanList = ps\<rparr>\<rparr>"

definition plan_with_vars :: "int \<Rightarrow> int \<Rightarrow> VariableList \<Rightarrow> Plan" where
  "plan_with_vars n m vl =
     Plan_zero\<lparr>VariableContext :=
       Some \<lparr>VariableContext.Size = n, MaxResults = m, StartIndex = 0,
             Variable = vl\<rparr>\<rparr>"

definition truncated :: response where
  "truncated = \<lparr>StatusCode = 200, Status = ''200 OK'',
                  Body = (''par'', Some (transportError ''unexpected EOF''))\<rparr>"

section \<open>Unfolding rules and facts about the stubs\<close>

lemmas steps = build_def build_raw_def dispatch_def dispatch_PlanResponse_def dispatch_Plan_def
  dispatch_raw_def

lemmas itoa = Itoa_def decimal.simps digit_def

lemma stub_client_fields:
  "BaseUrl (stub_client r e pr pl) = ''http://ci.example/''"
  "NewRequest (stub_client r e pr pl) m u = Inr (plain_request m u)"
  "RawRequest (stub_client r e pr pl) m u = Inr (plain_request m u)"
  "Do (stub_client r e pr pl) log rq = (r, e)"
  "Do_PlanResponse (stub_client r e pr pl) log rq v = (r, e, pr)"
  "Do_Plan (stub_client r e pr pl) log rq vp = (r, e, pl)"
  "RawDo (stub_client r e pr pl) log rq = (r, e)"
  by (simp_all add: stub_client_def)

lemma Values_all_Add: "Values_all (Values_Add q k v) k = Values_all q k @ [v]"
  by (simp add: Values_all_def Values_Add_def)

section \<open>The variable-list helpers\<close>

lemma ToMap_range_rev:
  "ToMap_range vs m = m ++ map_of (rev (map (\<lambda>v. (PlanVariable.Key v, Value v)) vs))"
proof (induction vs arbitrary: m)
  case Nil
  show ?case by simp
next
  case (Cons v vs)
  let ?f = "\<lambda>v. (PlanVariable.Key v, Value v)"
  have "ToMap_range (v # vs) m = m(PlanVariable.Key v \<mapsto> Value v) ++ map_of (rev (map ?f vs))"
    by (simp only: ToMap_range.simps Cons.IH)
  also have "\<dots> = m ++ map_of (rev (map ?f vs) @ [(PlanVariable.Key v, Value v)])"
    by (simp add: map_add_def fun_eq_iff split: option.splits)
  finally show ?case by simp
qed

lemma GetVarValue_always_empty: "GetVarValue vl name = []"
proof -
  have "GetVarValue_range vs name = []" for vs
    by (induction vs) simp_all
  then show ?thesis by (simp add: GetVarValue_def)
qed

text \<open>
  C1. The silent-default lookup is documented as returning the variable's value, or the
  empty string when the name is not found, and the strict lookup \<open>GetVarValueE\<close> does
  return the value. \<open>GetVarValue\<close> itself returns the empty string also when the entry
  is present: on the one-entry list holding \<open>a = x\<close>, looking \<open>a\<close> up gives \<open>""\<close>,
  while \<open>GetVarValueE\<close> gives \<open>x\<close> and no error.
\<close>

theorem GetVarValue_drops_present_value:
  "GetVarValue (Some [var ''a'' ''x'']) ''a'' = []
   \<and> GetVarValueE (Some [var ''a'' ''x'']) ''a'' = (''x'', None)"
  by (simp add: GetVarValue_def GetVarValueE_def elems_def var_def)

text \<open>
  C8. \<open>ToMap\<close> is last-key-wins: the map holds, under the key of an entry, that entry's
  value as soon as no later entry has the same key, whatever the earlier entries are; a
  key of no entry is absent. The map is the one built from the (key, value) pairs alone,
  latest first: declared types and secrecy flags play no part.
\<close>

theorem ToMap_last_key_wins:
  assumes "elems vl = xs @ x # ys"
    and "PlanVariable.Key x \<notin> PlanVariable.Key ` set ys"
  shows "ToMap vl (PlanVariable.Key x) = Some (Value x)
         \<and> ToMap vl = map_of (rev (map (\<lambda>v. (PlanVariable.Key v, Value v)) (elems vl)))
         \<and> (\<forall>k. k \<notin> PlanVariable.Key ` set (elems vl) \<longrightarrow> ToMap vl k = None)"
proof -
  let ?f = "\<lambda>v. (PlanVariable.Key v, Value v)"
  have whole: "ToMap vl = map_of (rev (map ?f (elems vl)))"
    by (simp add: ToMap_def ToMap_range_rev)
  have "map_of (rev (map ?f ys)) (PlanVariable.Key x) = None"
    using assms(2) by (simp add: map_of_eq_None_iff image_image)
  then have "map_of (rev (map ?f (xs @ x # ys))) (PlanVariable.Key x) = Some (Value x)"
    by (simp add: map_add_def)
  then have later: "ToMap vl (PlanVariable.Key x) = Some (Value x)"
    by (simp add: whole assms(1))
  have absent: "\<forall>k. k \<notin> PlanVariable.Key ` set (elems vl) \<longrightarrow> ToMap vl k = None"
    by (simp add: whole map_of_eq_None_iff image_image)
  from later whole absent show ?thesis by blast
qed

theorem ToMap_last_key_wins_witness:
  "ToMap (Some [var ''a'' ''1'', var ''b'' ''2'', var ''a'' ''3'']) ''a'' = Some ''3''"
proof -
  have e: "elems (Some [var ''a'' ''1'', var ''b'' ''2'', var ''a'' ''3''])
             = [var ''a'' ''1'', var ''b'' ''2''] @ var ''a'' ''3'' # []"
    by (simp add: elems_def)
  have n: "PlanVariable.Key (var ''a'' ''3'') \<notin> PlanVariable.Key ` set []"
    by simp
  from ToMap_last_key_wins [OF e n] have "ToMap (Some [var ''a'' ''1'', var ''b'' ''2'', var ''a'' ''3''])
      (PlanVariable.Key (var ''a'' ''3'')) = Some (Value (var ''a'' ''3''))"
    by (rule conjunct1)
  then show ?thesis
    by (simp add: var_def)
qed

section \<open>Counting and listing plans\<close>

lemma GetNumber_transport_error:
  assumes "NewRequest c ''GET'' ''plan.json'' = Inr rq"
    and "Do_PlanResponse c (sent w) (rq\<lparr>Query := Values_Add (Query rq) ''max-results'' ''1''\<rparr>)
           PlanResponse_zero = (resp, Some err, pr)"
  shows "GetNumber c w =
           (Return (0, resp, Some err),
            w\<lparr>built := built w @ [(''GET'', ''plan.json'')],
              sent := sent w @ [rq\<lparr>Query := Values_Add (Query rq) ''max-results'' ''1''\<rparr>]\<rparr>)"
  using assms by (cases resp) (simp_all add: GetNumber_def steps)

lemma GetNumber_unexpected_status:
  assumes "NewRequest c ''GET'' ''plan.json'' = Inr rq"
    and "Do_PlanResponse c (sent w) (rq\<lparr>Query := Values_Add (Query rq) ''max-results'' ''1''\<rparr>)
           PlanResponse_zero = (Some r, None, pr)"
    and "StatusCode r \<noteq> 200"
  shows "GetNumber c w =
           (Return (0, Some r,
              Some (simpleError (''Getting the number of plans returned '' @ Status r))),
            w\<lparr>built := built w @ [(''GET'', ''plan.json'')],
              sent := sent w @ [rq\<lparr>Query := Values_Add (Query rq) ''max-results'' ''1''\<rparr>]\<rparr>)"
  using assms by (simp add: GetNumber_def steps)

lemma List_GetNumber_error:
  assumes "GetNumber c w = (Return (n, resp, Some err), w1)"
  shows "List c w = (Return (None, resp, Some err), w1)"
  using assms by (simp add: List_def)

lemma GetNumber_success:
  assumes "GetNumber c w = (Return (N, resp1, None), w1)"
  shows "\<exists>rq. NewRequest c ''GET'' ''plan.json'' = Inr rq
           \<and> w1 = w\<lparr>built := built w @ [(''GET'', ''plan.json'')],
                    sent := sent w @ [rq\<lparr>Query := Values_Add (Query rq) ''max-results'' ''1''\<rparr>]\<rparr>"
  using assms
  by (auto simp: GetNumber_def steps split: sum.splits option.splits prod.splits if_splits)

lemma List_success:
  assumes "List c w = (Return (plans, resp, None), w')"
  shows "\<exists>N resp1 w1 rq r2 pr2 ps2.
           GetNumber c w = (Return (N, resp1, None), w1)
           \<and> NewRequest c ''GET'' ''plan.json'' = Inr rq
           \<and> Do_PlanResponse c (sent w1)
                (rq\<lparr>Query := Values_Add (Query rq) ''max-results'' (Itoa N)\<rparr>) PlanResponse_zero
               = (Some r2, None, pr2)
           \<and> StatusCode r2 = 200 \<and> Plans pr2 = Some ps2
           \<and> plans = PlanList ps2 \<and> resp = Some r2
           \<and> w' = w1\<lparr>built := built w1 @ [(''GET'', ''plan.json'')],
                     sent := sent w1 @ [rq\<lparr>Query := Values_Add (Query rq) ''max-results'' (Itoa N)\<rparr>]\<rparr>"
  using assms
  by (auto simp: List_def steps split: sum.splits option.splits prod.splits if_splits outcome.splits)

lemma List_run:
  assumes "NewRequest c ''GET'' ''plan.json'' = Inr rq"
    and "Do_PlanResponse c (sent w) (rq\<lparr>Query := Values_Add (Query rq) ''max-results'' ''1''\<rparr>)
           PlanResponse_zero = (Some r1, None, pr1)"
    and "StatusCode r1 = 200" and "Plans pr1 = Some ps1" and "CollectionMetadata ps1 = Some cm"
    and "Do_PlanResponse c (sent w @ [rq\<lparr>Query := Values_Add (Query rq) ''max-results'' ''1''\<rparr>])
           (rq\<lparr>Query := Values_Add (Query rq) ''max-results'' (Itoa (CollectionMetadata.Size cm))\<rparr>)
           PlanResponse_zero = (Some r2, None, pr2)"
    and "StatusCode r2 = 200" and "Plans pr2 = Some ps2"
  shows "List c w =
           (Return (PlanList ps2, Some r2, None),
            w\<lparr>built := built w @ [(''GET'', ''plan.json''), (''GET'', ''plan.json'')],
              sent := sent w @ [rq\<lparr>Query := Values_Add (Query rq) ''max-results'' ''1''\<rparr>,
                                rq\<lparr>Query := Values_Add (Query rq) ''max-results''
                                              (Itoa (CollectionMetadata.Size cm))\<rparr>]\<rparr>)"
proof -
  have "GetNumber c w =
          (Return (CollectionMetadata.Size cm, Some r1, None),
           w\<lparr>built := built w @ [(''GET'', ''plan.json'')],
             sent := sent w @ [rq\<lparr>Query := Values_Add (Query rq) ''max-results'' ''1''\<rparr>]\<rparr>)"
    using assms(1-5) by (simp add: GetNumber_def steps)
  then show ?thesis
    using assms(1,6-8) by (simp add: List_def steps)
qed

text \<open>
  C2. A successful \<open>List\<close> dispatches exactly two requests, both the request built for
  \<open>GET plan.json\<close> with one more \<open>max-results\<close> value: \<open>1\<close> on the first, and on the
  second the decimal rendering of the count \<open>N\<close> that \<open>GetNumber\<close> returned. The plan
  list returned is the \<open>PlanList\<close> decoded from the second reply, as it is.
\<close>

theorem List_two_requests:
  assumes "List c w = (Return (plans, resp, None), w')"
  shows "\<exists>rq N resp1 w1 r2 pr2 ps2.
           NewRequest c ''GET'' ''plan.json'' = Inr rq
           \<and> GetNumber c w = (Return (N, resp1, None), w1)
           \<and> sent w1 = sent w @ [rq\<lparr>Query := Values_Add (Query rq) ''max-results'' ''1''\<rparr>]
           \<and> sent w' = sent w @ [rq\<lparr>Query := Values_Add (Query rq) ''max-results'' ''1''\<rparr>,
                                 rq\<lparr>Query := Values_Add (Query rq) ''max-results'' (Itoa N)\<rparr>]
           \<and> Values_all (Query (rq\<lparr>Query := Values_Add (Query rq) ''max-results'' ''1''\<rparr>))
                ''max-results'' = Values_all (Query rq) ''max-results'' @ [''1'']
           \<and> Values_all (Query (rq\<lparr>Query := Values_Add (Query rq) ''max-results'' (Itoa N)\<rparr>))
                ''max-results'' = Values_all (Query rq) ''max-results'' @ [Itoa N]
           \<and> Do_PlanResponse c (sent w1)
                (rq\<lparr>Query := Values_Add (Query rq) ''max-results'' (Itoa N)\<rparr>) PlanResponse_zero
               = (Some r2, None, pr2)
           \<and> Plans pr2 = Some ps2 \<and> plans = PlanList ps2 \<and> resp = Some r2"
proof -
  from List_success [OF assms] obtain N resp1 w1 rq r2 pr2 ps2 where
    g: "GetNumber c w = (Return (N, resp1, None), w1)"
    and b: "NewRequest c ''GET'' ''plan.json'' = Inr rq"
    and d: "Do_PlanResponse c (sent w1)
              (rq\<lparr>Query := Values_Add (Query rq) ''max-results'' (Itoa N)\<rparr>) PlanResponse_zero
            = (Some r2, None, pr2)"
    and p: "Plans pr2 = Some ps2" "plans = PlanList ps2" "resp = Some r2"
    and w': "w' = w1\<lparr>built := built w1 @ [(''GET'', ''plan.json'')],
                     sent := sent w1 @ [rq\<lparr>Query := Values_Add (Query rq) ''max-results'' (Itoa N)\<rparr>]\<rparr>"
    by blast
  from GetNumber_success [OF g] b
  have s1: "sent w1 = sent w @ [rq\<lparr>Query := Values_Add (Query rq) ''max-results'' ''1''\<rparr>]"
    by auto
  with w' have s2: "sent w' = sent w @ [rq\<lparr>Query := Values_Add (Query rq) ''max-results'' ''1''\<rparr>,
                                 rq\<lparr>Query := Values_Add (Query rq) ''max-results'' (Itoa N)\<rparr>]"
    by simp
  from b g s1 s2 d p show ?thesis
    by (simp add: Values_all_Add)
qed

theorem List_two_requests_witness:
  "List (stub_client (Some ok) None
           (plans_of 2 (Some [Some (plan ''PRJ-A'' ''a''), Some (plan ''PRJ-B'' ''b'')])) Plan_zero) w0 =
     (Return (Some [Some (plan ''PRJ-A'' ''a''), Some (plan ''PRJ-B'' ''b'')], Some ok, None),
      \<lparr>built = [(''GET'', ''plan.json''), (''GET'', ''plan.json'')],
       sent = [\<lparr>Method = ''GET'', URL = ''plan.json'',
                Query = [(''max-results'', ''1'')], Header = []\<rparr>,
               \<lparr>Method = ''GET'', URL = ''plan.json'',
                Query = [(''max-results'', ''2'')], Header = []\<rparr>]\<rparr>)
   \<and> (\<exists>w1. GetNumber (stub_client (Some ok) None
           (plans_of 2 (Some [Some (plan ''PRJ-A'' ''a''), Some (plan ''PRJ-B'' ''b'')])) Plan_zero) w0
         = (Return (2, Some ok, None), w1))"
proof -
  let ?ps = "Some [Some (plan ''PRJ-A'' ''a''), Some (plan ''PRJ-B'' ''b'')]"
  let ?c = "stub_client (Some ok) None (plans_of 2 ?ps) Plan_zero"
  let ?w = "\<lparr>built = [(''GET'', ''plan.json''), (''GET'', ''plan.json'')],
       sent = [\<lparr>Method = ''GET'', URL = ''plan.json'',
                Query = [(''max-results'', ''1'')], Header = []\<rparr>,
               \<lparr>Method = ''GET'', URL = ''plan.json'',
                Query = [(''max-results'', ''2'')], Header = []\<rparr>]\<rparr>"
  have g: "GetNumber ?c w0 =
             (Return (2, Some ok, None),
              \<lparr>built = [(''GET'', ''plan.json'')],
               sent = [\<lparr>Method = ''GET'', URL = ''plan.json'',
                        Query = [(''max-results'', ''1'')], Header = []\<rparr>]\<rparr>)"
    by (simp add: GetNumber_def steps stub_client_fields plain_request_def w0_def ok_def
          plans_of_def Values_Add_def)
  have l: "List ?c w0 = (Return (?ps, Some ok, None), ?w)"
    by (simp only: List_def g)
      (simp add: steps stub_client_fields plain_request_def ok_def plans_of_def Values_Add_def itoa)
  from List_two_requests [OF l] obtain rq N resp1 w1 where
    "NewRequest ?c ''GET'' ''plan.json'' = Inr rq"
    and "GetNumber ?c w0 = (Return (N, resp1, None), w1)"
    and "sent ?w = sent w0 @ [rq\<lparr>Query := Values_Add (Query rq) ''max-results'' ''1''\<rparr>,
                                 rq\<lparr>Query := Values_Add (Query rq) ''max-results'' (Itoa N)\<rparr>]"
    by blast
  with l g show ?thesis by simp
qed

text \<open>
  C3. When the count probe's dispatch gives a transport error, or no error but a response
  whose status code is not 200, \<open>List\<close> returns what \<open>GetNumber\<close> returned: the probe's
  response and error, with a nil plan list. The probe is the only request built and the
  only one dispatched. The error is the transport's own, or the \<open>simpleError\<close> naming
  the status.
\<close>

theorem List_probe_failure:
  assumes "NewRequest c ''GET'' ''plan.json'' = Inr rq"
    and "Do_PlanResponse c (sent w) (rq\<lparr>Query := Values_Add (Query rq) ''max-results'' ''1''\<rparr>)
           PlanResponse_zero = (resp, e, pr)"
    and "e \<noteq> None \<or> (\<exists>r. resp = Some r \<and> StatusCode r \<noteq> 200)"
  shows "\<exists>err w1.
           GetNumber c w = (Return (0, resp, Some err), w1)
           \<and> List c w = (Return (None, resp, Some err), w1)
           \<and> built w1 = built w @ [(''GET'', ''plan.json'')]
           \<and> sent w1 = sent w @ [rq\<lparr>Query := Values_Add (Query rq) ''max-results'' ''1''\<rparr>]
           \<and> (e = Some err
                \<or> (\<exists>r. e = None \<and> resp = Some r
                      \<and> err = simpleError (''Getting the number of plans returned '' @ Status r)))"
proof (cases e)
  case (Some err)
  with assms(2) have "Do_PlanResponse c (sent w)
      (rq\<lparr>Query := Values_Add (Query rq) ''max-results'' ''1''\<rparr>) PlanResponse_zero = (resp, Some err, pr)"
    by simp
  from GetNumber_transport_error [OF assms(1) this] Some show ?thesis
    by (simp add: List_GetNumber_error)
next
  case None
  with assms(3) obtain r where r: "resp = Some r" "StatusCode r \<noteq> 200"
    by blast
  with None assms(2) have "Do_PlanResponse c (sent w)
      (rq\<lparr>Query := Values_Add (Query rq) ''max-results'' ''1''\<rparr>) PlanResponse_zero = (Some r, None, pr)"
    by simp
  from GetNumber_unexpected_status [OF assms(1) this r(2)] None r(1) show ?thesis
    by (simp add: List_GetNumber_error)
qed

theorem List_probe_failure_witness:
  "List (stub_client (Some unauthorized) None PlanResponse_zero Plan_zero) w0 =
     (Return (None, Some unauthorized,
        Some (simpleError ''Getting the number of plans returned 401 Unauthorized'')),
      \<lparr>built = [(''GET'', ''plan.json'')],
       sent = [\<lparr>Method = ''GET'', URL = ''plan.json'',
                Query = [(''max-results'', ''1'')], Header = []\<rparr>]\<rparr>)
   \<and> List (stub_client None (Some refused) PlanResponse_zero Plan_zero) w0 =
     (Return (None, None, Some refused),
      \<lparr>built = [(''GET'', ''plan.json'')],
       sent = [\<lparr>Method = ''GET'', URL = ''plan.json'',
                Query = [(''max-results'', ''1'')], Header = []\<rparr>]\<rparr>)"
proof -
  let ?c = "\<lambda>r e. stub_client r e PlanResponse_zero Plan_zero"
  let ?rq = "plain_request ''GET'' ''plan.json''"
  have b: "NewRequest (?c r e) ''GET'' ''plan.json'' = Inr ?rq" for r e
    by (simp add: stub_client_def)
  have d: "Do_PlanResponse (?c r e) (sent w0)
             (?rq\<lparr>Query := Values_Add (Query ?rq) ''max-results'' ''1''\<rparr>) PlanResponse_zero
           = (r, e, PlanResponse_zero)" for r e
    by (simp add: stub_client_def)
  have h1: "(None :: error option) \<noteq> None
              \<or> (\<exists>r. Some unauthorized = Some r \<and> StatusCode r \<noteq> 200)"
    by (simp add: unauthorized_def)
  have h2: "Some refused \<noteq> None \<or> (\<exists>r. (None :: response option) = Some r \<and> StatusCode r \<noteq> 200)"
    by simp
  from List_probe_failure [OF b d h1] List_probe_failure [OF b d h2]
  show ?thesis
    by (auto simp: plain_request_def w0_def Values_Add_def unauthorized_def)
qed

section \<open>The projections of the plan list\<close>

lemma ListKeys_range_Some:
  "i + length ps \<le> length keys \<Longrightarrow>
     ListKeys_range i (map Some ps) keys =
       Return (take i keys @ map Plan.Key ps @ drop (i + length ps) keys)"
proof (induction ps arbitrary: i keys)
  case Nil
  then show ?case by simp
next
  case (Cons p ps)
  from Cons.prems have i: "i < length keys" by simp
  from Cons.prems have "Suc i + length ps \<le> length (keys[i := Plan.Key p])" by simp
  from Cons.IH [OF this] i show ?case
    by (simp add: take_Suc_conv_app_nth)
qed

lemma ListNames_range_Some:
  "i + length ps \<le> length names \<Longrightarrow>
     ListNames_range i (map Some ps) names =
       Return (take i names @ map ShortName ps @ drop (i + length ps) names)"
proof (induction ps arbitrary: i names)
  case Nil
  then show ?case by simp
next
  case (Cons p ps)
  from Cons.prems have i: "i < length names" by simp
  from Cons.prems have "Suc i + length ps \<le> length (names[i := ShortName p])" by simp
  from Cons.IH [OF this] i show ?case
    by (simp add: take_Suc_conv_app_nth)
qed

lemma NamesMap_range_Some:
  "NamesMap_range (map Some ps) m =
     Return (m ++ map_of (rev (map (\<lambda>p. (Plan.Key p, ShortName p)) ps)))"
proof (induction ps arbitrary: m)
  case Nil
  show ?case by simp
next
  case (Cons p ps)
  let ?f = "\<lambda>p. (Plan.Key p, ShortName p)"
  have "NamesMap_range (map Some (p # ps)) m =
          Return (m(Plan.Key p \<mapsto> ShortName p) ++ map_of (rev (map ?f ps)))"
    by (simp only: list.map NamesMap_range.simps Cons.IH)
  also have "m(Plan.Key p \<mapsto> ShortName p) ++ map_of (rev (map ?f ps))
               = m ++ map_of (rev (map ?f ps) @ [(Plan.Key p, ShortName p)])"
    by (simp add: map_add_def fun_eq_iff split: option.splits)
  finally show ?case by simp
qed

text \<open>
  C7. \<open>ListKeys\<close>, \<open>ListNames\<close> and \<open>NamesMap\<close> send nothing beyond what \<open>List\<close>
  sends. When \<open>List\<close> returns an error they return nil with that error and response.
  When \<open>List\<close> succeeds with a plan list none of whose entries is a nil pointer, they
  return the keys in order, the short names in order, and the map from key to short
  name (the last plan with a key deciding).
\<close>

theorem projections_of_List:
  assumes "List c w = (Return (plans, resp, err), w')"
    and "err = None \<longrightarrow> elems plans = map Some ps"
  shows "ListKeys c w =
           (Return (case err of None \<Rightarrow> Some (map Plan.Key ps) | Some e \<Rightarrow> None, resp, err), w')
         \<and> ListNames c w =
           (Return (case err of None \<Rightarrow> Some (map ShortName ps) | Some e \<Rightarrow> None, resp, err), w')
         \<and> NamesMap c w =
           (Return (case err of
                      None \<Rightarrow> Some (map_of (rev (map (\<lambda>p. (Plan.Key p, ShortName p)) ps)))
                    | Some e \<Rightarrow> None, resp, err), w')"
proof (cases err)
  case (Some e)
  with assms(1) show ?thesis
    by (simp add: ListKeys_def ListNames_def NamesMap_def)
next
  case None
  with assms(2) have ps: "elems plans = map Some ps" by simp
  have k: "ListKeys_range 0 (map Some ps) (replicate (length ps) []) = Return (map Plan.Key ps)"
    by (simp add: ListKeys_range_Some)
  have n: "ListNames_range 0 (map Some ps) (replicate (length ps) []) = Return (map ShortName ps)"
    by (simp add: ListNames_range_Some)
  have m: "NamesMap_range (map Some ps) Map.empty =
             Return (map_of (rev (map (\<lambda>p. (Plan.Key p, ShortName p)) ps)))"
    by (simp add: NamesMap_range_Some)
  from assms(1) None show ?thesis
    by (simp add: ListKeys_def ListNames_def NamesMap_def ps k n m)
qed

theorem projections_of_List_witness:
  "ListKeys (stub_client (Some ok) None
       (plans_of 2 (Some [Some (plan ''PRJ-A'' ''a''), Some (plan ''PRJ-B'' ''b'')])) Plan_zero) w0 =
     (Return (Some [''PRJ-A'', ''PRJ-B''], Some ok, None),
      \<lparr>built = [(''GET'', ''plan.json''), (''GET'', ''plan.json'')],
       sent = [\<lparr>Method = ''GET'', URL = ''plan.json'',
                Query = [(''max-results'', ''1'')], Header = []\<rparr>,
               \<lparr>Method = ''GET'', URL = ''plan.json'',
                Query = [(''max-results'', ''2'')], Header = []\<rparr>]\<rparr>)
   \<and> ListNames (stub_client (Some unauthorized) None PlanResponse_zero Plan_zero) w0 =
     (Return (None, Some unauthorized,
        Some (simpleError ''Getting the number of plans returned 401 Unauthorized'')),
      \<lparr>built = [(''GET'', ''plan.json'')],
       sent = [\<lparr>Method = ''GET'', URL = ''plan.json'',
                Query = [(''max-results'', ''1'')], Header = []\<rparr>]\<rparr>)"
proof -
  let ?ps = "[plan ''PRJ-A'' ''a'', plan ''PRJ-B'' ''b'']"
  let ?c = "stub_client (Some ok) None (plans_of 2 (Some (map Some ?ps))) Plan_zero"
  let ?u = "stub_client (Some unauthorized) None PlanResponse_zero Plan_zero"
  let ?w1 = "\<lparr>built = [(''GET'', ''plan.json'')],
               sent = [\<lparr>Method = ''GET'', URL = ''plan.json'',
                        Query = [(''max-results'', ''1'')], Header = []\<rparr>]\<rparr>"
  let ?w2 = "\<lparr>built = [(''GET'', ''plan.json''), (''GET'', ''plan.json'')],
       sent = [\<lparr>Method = ''GET'', URL = ''plan.json'',
                Query = [(''max-results'', ''1'')], Header = []\<rparr>,
               \<lparr>Method = ''GET'', URL = ''plan.json'',
                Query = [(''max-results'', ''2'')], Header = []\<rparr>]\<rparr>"
  have g: "GetNumber ?c w0 = (Return (2, Some ok, None), ?w1)"
    by (simp add: GetNumber_def steps stub_client_fields plain_request_def w0_def ok_def
          plans_of_def Values_Add_def)
  have l: "List ?c w0 = (Return (Some (map Some ?ps), Some ok, None), ?w2)"
    by (simp only: List_def g)
      (simp add: steps stub_client_fields plain_request_def ok_def plans_of_def Values_Add_def itoa)
  have e: "(None :: error option) = None \<longrightarrow> elems (Some (map Some ?ps)) = map Some ?ps"
    by (simp add: elems_def)
  have gu: "GetNumber ?u w0 =
              (Return (0, Some unauthorized,
                 Some (simpleError ''Getting the number of plans returned 401 Unauthorized'')), ?w1)"
    by (simp add: GetNumber_def steps stub_client_fields plain_request_def w0_def unauthorized_def
          Values_Add_def)
  have lu: "List ?u w0 =
              (Return (None, Some unauthorized,
                 Some (simpleError ''Getting the number of plans returned 401 Unauthorized'')), ?w1)"
    by (simp only: List_def gu) simp
  have eu: "Some (simpleError ''Getting the number of plans returned 401 Unauthorized'') = None
              \<longrightarrow> elems None = map Some ([] :: Plan list)"
    by simp
  from projections_of_List [OF l e] projections_of_List [OF lu eu]
  show ?thesis
    by (simp add: plan_def Plan_zero_def)
qed

text \<open>
  Without the condition on the entries the three functions need not return: a reply whose
  plan array holds a single \<open>null\<close> decodes to a list with one nil pointer, which
  \<open>List\<close> returns with no error, and each projection panics on reading a field
  through it.
\<close>

theorem projections_nil_plan_counterexample:
  "List (stub_client (Some ok) None (plans_of 1 (Some [None])) Plan_zero) w0 =
     (Return (Some [None], Some ok, None),
      \<lparr>built = [(''GET'', ''plan.json''), (''GET'', ''plan.json'')],
       sent = [\<lparr>Method = ''GET'', URL = ''plan.json'',
                Query = [(''max-results'', ''1'')], Header = []\<rparr>,
               \<lparr>Method = ''GET'', URL = ''plan.json'',
                Query = [(''max-results'', ''1'')], Header = []\<rparr>]\<rparr>)
   \<and> fst (ListKeys (stub_client (Some ok) None (plans_of 1 (Some [None])) Plan_zero) w0) = Panic
   \<and> fst (ListNames (stub_client (Some ok) None (plans_of 1 (Some [None])) Plan_zero) w0) = Panic
   \<and> fst (NamesMap (stub_client (Some ok) None (plans_of 1 (Some [None])) Plan_zero) w0) = Panic"
proof -
  let ?c = "stub_client (Some ok) None (plans_of 1 (Some [None])) Plan_zero"
  let ?w = "\<lparr>built = [(''GET'', ''plan.json''), (''GET'', ''plan.json'')],
       sent = [\<lparr>Method = ''GET'', URL = ''plan.json'',
                Query = [(''max-results'', ''1'')], Header = []\<rparr>,
               \<lparr>Method = ''GET'', URL = ''plan.json'',
                Query = [(''max-results'', ''1'')], Header = []\<rparr>]\<rparr>"
  have g: "GetNumber ?c w0 =
             (Return (1, Some ok, None),
              \<lparr>built = [(''GET'', ''plan.json'')],
               sent = [\<lparr>Method = ''GET'', URL = ''plan.json'',
                        Query = [(''max-results'', ''1'')], Header = []\<rparr>]\<rparr>)"
    by (simp add: GetNumber_def steps stub_client_fields plain_request_def w0_def ok_def
          plans_of_def Values_Add_def)
  have l: "List ?c w0 = (Return (Some [None], Some ok, None), ?w)"
    by (simp only: List_def g)
      (simp add: steps stub_client_fields plain_request_def ok_def plans_of_def Values_Add_def itoa)
  have "fst (ListKeys ?c w0) = Panic"
    by (simp only: ListKeys_def l) (simp add: elems_def)
  moreover have "fst (ListNames ?c w0) = Panic"
    by (simp only: ListNames_def l) (simp add: elems_def)
  moreover have "fst (NamesMap ?c w0) = Panic"
    by (simp only: NamesMap_def l) (simp add: elems_def)
  ultimately show ?thesis using l by simp
qed

section \<open>Creating a branch, disabling a plan\<close>

text \<open>
  C5. With an empty plan key or an empty branch name, \<open>CreateBranch\<close> returns false, no
  response and the validation error, and leaves the world as it found it: no request is
  built and none is dispatched.
\<close>

theorem CreateBranch_empty_argument:
  assumes "planKey = [] \<or> branchName = []"
  shows "CreateBranch c planKey branchName options w =
           (Return (False, None,
              Some (simpleError ''Project key and/or branch name cannot be empty'')), w)"
  using assms by (auto simp: CreateBranch_def)

theorem CreateBranch_empty_argument_witness:
  "CreateBranch (stub_client (Some ok) None PlanResponse_zero Plan_zero) [] ''b'' None w0 =
     (Return (False, None,
        Some (simpleError ''Project key and/or branch name cannot be empty'')), w0)
   \<and> CreateBranch (stub_client (Some ok) None PlanResponse_zero Plan_zero) ''p'' [] None w0 =
     (Return (False, None,
        Some (simpleError ''Project key and/or branch name cannot be empty'')), w0)"
  using CreateBranch_empty_argument [of "[]" "''b''"] CreateBranch_empty_argument [of "''p''" "[]"]
  by simp

text \<open>
  C6. When the request for \<open>DELETE plan/<key>/enable\<close> is built and its dispatch gives
  no error, \<open>Disable\<close> returns the response with a nil error, whatever the response
  and its status code are.
\<close>

theorem Disable_trusts_transport:
  assumes "NewRequest c ''DELETE'' (''plan/'' @ planKey @ ''/enable'') = Inr rq"
    and "Do c (sent w) rq = (resp, None)"
  shows "Disable c planKey w =
           (Return (resp, None),
            w\<lparr>built := built w @ [(''DELETE'', ''plan/'' @ planKey @ ''/enable'')],
              sent := sent w @ [rq]\<rparr>)"
  using assms by (simp add: Disable_def steps)

theorem Disable_trusts_transport_witness:
  "Disable (stub_client (Some unauthorized) None PlanResponse_zero Plan_zero) ''PRJ-PLAN'' w0 =
     (Return (Some unauthorized, None),
      \<lparr>built = [(''DELETE'', ''plan/PRJ-PLAN/enable'')],
       sent = [plain_request ''DELETE'' ''plan/PRJ-PLAN/enable'']\<rparr>)
   \<and> StatusCode unauthorized = 401"
  using Disable_trusts_transport [of "stub_client (Some unauthorized) None PlanResponse_zero Plan_zero"
      "''PRJ-PLAN''" "plain_request ''DELETE'' ''plan/PRJ-PLAN/enable''" w0 "Some unauthorized"]
  by (simp add: stub_client_def w0_def unauthorized_def)

section \<open>Plan variables\<close>

text \<open>
  C4. When the dispatch gives no error and the decoded plan has a variable context,
  \<open>GetVars\<close> returns the context's variable list with the response, and the error is
  non-nil exactly when the context's \<open>MaxResults\<close> differs from its \<open>Size\<close>.
\<close>

theorem GetVars_partial_result:
  assumes "NewRequest c ''GET'' (''plan/'' @ planKey) = Inr rq"
    and "Do_Plan c (sent w) (rq\<lparr>Query := Values_Add (Query rq) ''expand'' ''variableContext''\<rparr>)
           Plan_zero = (resp, None, planResp)"
    and "VariableContext planResp = Some vc"
  shows "GetVars c planKey w =
           (Return (Variable vc, resp,
              if VariableContext.MaxResults vc \<noteq> VariableContext.Size vc then
                Some (fmtError (''not all results were returned: ''
                        @ Itoa (VariableContext.Size vc) @ '' out of ''
                        @ Itoa (VariableContext.MaxResults vc)))
              else None),
            w\<lparr>built := built w @ [(''GET'', ''plan/'' @ planKey)],
              sent := sent w @ [rq\<lparr>Query := Values_Add (Query rq) ''expand'' ''variableContext''\<rparr>]\<rparr>)"
  using assms by (simp add: GetVars_def steps)

theorem GetVars_partial_result_witness:
  "GetVars (stub_client (Some ok) None PlanResponse_zero
              (plan_with_vars 2 2 (Some [var ''a'' ''1'', var ''b'' ''2''])))
           ''PRJ-PLAN'' w0 =
     (Return (Some [var ''a'' ''1'', var ''b'' ''2''], Some ok, None),
      \<lparr>built = [(''GET'', ''plan/PRJ-PLAN'')],
       sent = [\<lparr>Method = ''GET'', URL = ''plan/PRJ-PLAN'',
                Query = [(''expand'', ''variableContext'')], Header = []\<rparr>]\<rparr>)
   \<and> GetVars (stub_client (Some ok) None PlanResponse_zero
                (plan_with_vars 3 2 (Some [var ''a'' ''1'', var ''b'' ''2''])))
             ''PRJ-PLAN'' w0 =
     (Return (Some [var ''a'' ''1'', var ''b'' ''2''], Some ok,
        Some (fmtError ''not all results were returned: 3 out of 2'')),
      \<lparr>built = [(''GET'', ''plan/PRJ-PLAN'')],
       sent = [\<lparr>Method = ''GET'', URL = ''plan/PRJ-PLAN'',
                Query = [(''expand'', ''variableContext'')], Header = []\<rparr>]\<rparr>)"
proof -
  let ?vl = "Some [var ''a'' ''1'', var ''b'' ''2'']"
  let ?c = "\<lambda>n m. stub_client (Some ok) None PlanResponse_zero (plan_with_vars n m ?vl)"
  let ?vc = "\<lambda>n m. \<lparr>VariableContext.Size = n, MaxResults = m, StartIndex = 0, Variable = ?vl\<rparr>"
  have b: "NewRequest (?c n m) ''GET'' (''plan/'' @ ''PRJ-PLAN'') = Inr (plain_request ''GET'' ''plan/PRJ-PLAN'')" for n m
    by (simp add: stub_client_def)
  have d: "Do_Plan (?c n m) (sent w0)
             ((plain_request ''GET'' ''plan/PRJ-PLAN'')
                \<lparr>Query := Values_Add (Query (plain_request ''GET'' ''plan/PRJ-PLAN'')) ''expand'' ''variableContext''\<rparr>)
             Plan_zero = (Some ok, None, plan_with_vars n m ?vl)" for n m
    by (simp add: stub_client_def)
  have v: "VariableContext (plan_with_vars n m ?vl) = Some (?vc n m)" for n m
    by (simp add: plan_with_vars_def)
  from GetVars_partial_result [OF b d v, of 2 2] GetVars_partial_result [OF b d v, of 3 2]
  show ?thesis
    by (simp add: itoa plain_request_def w0_def Values_Add_def)
qed

text \<open>
  C9. \<open>GetVars\<close> reads the variable context of the decoded plan without looking at the
  response or at whether the context is there. It panics exactly when the request is
  built, the dispatch gives no error, and the decoded plan has a nil variable context,
  whatever the response and its status code are; in every other case it returns.
\<close>

theorem GetVars_nil_context_panics:
  "fst (GetVars c planKey w) = Panic \<longleftrightarrow>
     (\<exists>rq resp planResp.
        NewRequest c ''GET'' (''plan/'' @ planKey) = Inr rq
        \<and> Do_Plan c (sent w) (rq\<lparr>Query := Values_Add (Query rq) ''expand'' ''variableContext''\<rparr>)
              Plan_zero = (resp, None, planResp)
        \<and> VariableContext planResp = None)"
  by (auto simp: GetVars_def steps split: sum.splits option.splits prod.splits if_splits)

theorem GetVars_nil_context_panics_witness:
  "fst (GetVars (stub_client (Some unauthorized) None PlanResponse_zero Plan_zero) ''PRJ-PLAN'' w0)
     = Panic
   \<and> fst (GetVars (stub_client (Some ok) None PlanResponse_zero
                    (plan_with_vars 1 1 (Some [var ''a'' ''1''])))
             ''PRJ-PLAN'' w0)
     \<noteq> Panic"
proof -
  have "VariableContext Plan_zero = None"
    by (simp add: Plan_zero_def)
  moreover have "VariableContext (plan_with_vars 1 1 (Some [var ''a'' ''1''])) \<noteq> None"
    by (simp add: plan_with_vars_def)
  ultimately show ?thesis
    using GetVars_nil_context_panics
            [of "stub_client (Some unauthorized) None PlanResponse_zero Plan_zero" "''PRJ-PLAN''" w0]
          GetVars_nil_context_panics
            [of "stub_client (Some ok) None PlanResponse_zero
                   (plan_with_vars 1 1 (Some [var ''a'' ''1'']))" "''PRJ-PLAN''" w0]
    by (simp add: stub_client_fields)
qed

section \<open>Raw requests\<close>

text \<open>
  C10. On a transport error \<open>GetRaw\<close> returns the empty string, a nil response and that
  error; on a response whose status code is not 200 it returns the empty string, a nil
  response and the \<open>simpleError\<close> naming the code. Whenever it returns a response
  together with an error, the status code was 200 and reading the body failed.
\<close>

theorem GetRaw_discards_response:
  "(\<forall>rq resp err.
      RawRequest c ''GET'' (TrimPrefix path (BaseUrl c)) = Inr rq
      \<and> RawDo c (sent w) (rq\<lparr>Header := Values_Add (Header rq) ''Content-Type''
                                           ''application/x-www-form-urlencoded''\<rparr>) = (resp, Some err)
      \<longrightarrow> fst (GetRaw c path w) = Return ([], None, Some err))
   \<and> (\<forall>rq r.
      RawRequest c ''GET'' (TrimPrefix path (BaseUrl c)) = Inr rq
      \<and> RawDo c (sent w) (rq\<lparr>Header := Values_Add (Header rq) ''Content-Type''
                                           ''application/x-www-form-urlencoded''\<rparr>) = (Some r, None)
      \<and> StatusCode r \<noteq> 200
      \<longrightarrow> fst (GetRaw c path w) =
            Return ([], None, Some (simpleError (''Get returned '' @ Itoa (StatusCode r)))))
   \<and> (\<forall>s r e.
      fst (GetRaw c path w) = Return (s, Some r, Some e)
      \<longrightarrow> (\<exists>rq b re.
             RawRequest c ''GET'' (TrimPrefix path (BaseUrl c)) = Inr rq
             \<and> RawDo c (sent w) (rq\<lparr>Header := Values_Add (Header rq) ''Content-Type''
                                           ''application/x-www-form-urlencoded''\<rparr>) = (Some r, None)
             \<and> StatusCode r = 200 \<and> Body r = (b, Some re)
             \<and> s = [] \<and> e = simpleError (''Read body '' @ Error re)))"
  by (auto simp: GetRaw_def steps split: sum.splits option.splits prod.splits if_splits)

theorem GetRaw_discards_response_witness:
  "fst (GetRaw (stub_client (Some unauthorized) None PlanResponse_zero Plan_zero)
          ''http://ci.example/foo'' w0) = Return ([], None, Some (simpleError ''Get returned 401''))
   \<and> fst (GetRaw (stub_client (Some unauthorized) (Some refused) PlanResponse_zero Plan_zero)
          ''http://ci.example/foo'' w0) = Return ([], None, Some refused)
   \<and> fst (GetRaw (stub_client (Some truncated) None PlanResponse_zero Plan_zero)
          ''http://ci.example/foo'' w0) =
       Return ([], Some truncated, Some (simpleError ''Read body unexpected EOF''))
   \<and> StatusCode truncated = 200 \<and> snd (Body truncated) \<noteq> None"
proof -
  let ?c = "\<lambda>r e. stub_client r e PlanResponse_zero Plan_zero"
  let ?rq = "plain_request ''GET'' ''foo''"
  have b: "RawRequest (?c r e) ''GET'' (TrimPrefix ''http://ci.example/foo'' (BaseUrl (?c r e))) = Inr ?rq" for r e
    by (simp add: stub_client_def TrimPrefix_def)
  have d: "RawDo (?c r e) (sent w0)
             (?rq\<lparr>Header := Values_Add (Header ?rq) ''Content-Type'' ''application/x-www-form-urlencoded''\<rparr>)
           = (r, e)" for r e
    by (simp add: stub_client_def)
  have one: "fst (GetRaw (?c (Some unauthorized) None) ''http://ci.example/foo'' w0)
               = Return ([], None, Some (simpleError ''Get returned 401''))"
    using GetRaw_discards_response [of "?c (Some unauthorized) None" "''http://ci.example/foo''" w0]
      b [of "Some unauthorized" None] d [of "Some unauthorized" None]
    by (simp add: unauthorized_def itoa)
  have two: "fst (GetRaw (?c (Some unauthorized) (Some refused)) ''http://ci.example/foo'' w0)
               = Return ([], None, Some refused)"
    using GetRaw_discards_response [of "?c (Some unauthorized) (Some refused)" "''http://ci.example/foo''" w0]
      b [of "Some unauthorized" "Some refused"] d [of "Some unauthorized" "Some refused"]
    by simp
  have three: "fst (GetRaw (?c (Some truncated) None) ''http://ci.example/foo'' w0)
               = Return ([], Some truncated, Some (simpleError ''Read body unexpected EOF''))"
    by (simp add: GetRaw_def steps stub_client_def TrimPrefix_def truncated_def)
  have "StatusCode truncated = 200 \<and> snd (Body truncated) \<noteq> None"
    using GetRaw_discards_response [of "?c (Some truncated) None" "''http://ci.example/foo''" w0] three
    by auto
  with one two three show ?thesis by simp
qed

end
